theory Spec2Isabelle
  imports Main "HOL-Library.Word" "HOL-Library.Multiset"
begin

section \<open>The build service of \<^verbatim>\<open>backend/server.js\<close>\<close>

text \<open>
  The server is one Express module with five routes over two mongoose models, \<^verbatim>\<open>User\<close>
  and \<^verbatim>\<open>Build\<close>. Each route handler is embedded as a function from the request and the
  contents of the database to an outcome: the HTTP response, the contents of the database
  afterwards, and the library calls the handler made, in order.

  What the handlers cannot decide themselves is an explicit input: the clock, the ObjectId
  the driver generates for a new document, the salt bcrypt draws, the key derivation of
  bcrypt, what the driver makes of a \<^verbatim>\<open>userId\<close> that is not a string, and which library
  calls reject in this request (the \<^verbatim>\<open>catch\<close> branches of the handlers are then ordinary
  branches of the model).

  The request is what the body parser and the router hand to the handler. \<^verbatim>\<open>userId\<close> in
  the body of a save is absent or any JSON value. \<^verbatim>\<open>username\<close> and \<^verbatim>\<open>password\<close> are
  absent or a JSON string, and \<^verbatim>\<open>bricks\<close> is absent or an array of bricks whose seven
  fields are numbers: other JSON types in these three fields are outside the model. Path
  parameters are strings. A string is the list of its code units, and its \<^verbatim>\<open>length\<close> the
  length of that list; the handlers look at no code unit, the cast to ObjectId only at
  hexadecimal digits. Logging is not modelled.
\<close>

subsection \<open>ObjectIds and their text form\<close>

text \<open>
  An ObjectId is a 12-byte value. In JSON and in a path it is written as 24 hexadecimal
  digits (\<^verbatim>\<open>toHexString\<close>, lower case); the schema type \<^verbatim>\<open>ObjectId\<close> casts a string back,
  accepting both cases of the digits and rejecting every string that is not 24
  hexadecimal digits. (Drivers before bson 5 also took any string of 12 characters as the
  12 bytes; the examples below use strings that every driver rejects.)
\<close>

type_synonym objectid = "96 word"

definition hexChar :: "nat \<Rightarrow> char" where
  "hexChar d = ''0123456789abcdef'' ! d"

definition hexVal :: "char \<Rightarrow> nat option" where
  "hexVal c = map_of (zip ''0123456789abcdefABCDEF''
                 [0, 1, 2, 3, 4, 5, 6, 7, 8, 9, 10, 11, 12, 13, 14, 15, 10, 11, 12, 13, 14, 15]) c"

fun toHex :: "nat \<Rightarrow> nat \<Rightarrow> string" where
  "toHex 0 n = []"
| "toHex (Suc k) n = toHex k (n div 16) @ [hexChar (n mod 16)]"

fun fromHex :: "nat \<Rightarrow> string \<Rightarrow> nat option" where
  "fromHex acc [] = Some acc"
| "fromHex acc (c # cs) =
     (case hexVal c of None \<Rightarrow> None | Some d \<Rightarrow> fromHex (16 * acc + d) cs)"

definition toHexString :: "objectid \<Rightarrow> string" where
  "toHexString i = toHex 24 (unat i)"

definition castObjectId :: "string \<Rightarrow> objectid option" where
  "castObjectId s = (if length s = 24 then map_option of_nat (fromHex 0 s) else None)"

subsection \<open>Numbers and JSON values\<close>

text \<open>
  A number reaches a handler as the IEEE 754 double that \<^verbatim>\<open>JSON.parse\<close> made of the
  literal in the body (a literal that is no double is rounded there, \<^verbatim>\<open>1e400\<close> becomes
  \<^verbatim>\<open>Infinity\<close>). The model keeps the 64 bits of the double: sign, 11 bits of exponent,
  52 bits of fraction. No handler computes with a number. A number is tested by \<^verbatim>\<open>!\<close>,
  stored, and written into the response by \<^verbatim>\<open>res.json\<close>, which writes \<^verbatim>\<open>null\<close> for a
  number that is not finite and \<^verbatim>\<open>0\<close> for the negative zero; every other double it
  writes so that it reads back as the same double.
\<close>

type_synonym number = "64 word"

definition isFinite :: "number \<Rightarrow> bool" where
  "isFinite d = (take_bit 11 (drop_bit 52 d) \<noteq> (2047 :: 64 word))"

definition isNaN :: "number \<Rightarrow> bool" where
  "isNaN d = (\<not> isFinite d \<and> take_bit 52 d \<noteq> 0)"

definition isZero :: "number \<Rightarrow> bool" where
  "isZero d = (take_bit 63 d = 0)"

datatype json = JNull | JBool bool | JNum number | JStr string
  | JArr "json list" | JObj "(string \<times> json) list"

definition negativeZero :: number where
  "negativeZero = 0x8000000000000000"

definition stringifyNumber :: "number \<Rightarrow> json" where
  "stringifyNumber d =
     (if \<not> isFinite d then JNull else if d = negativeZero then JNum 0 else JNum d)"

definition exactNumber :: "number \<Rightarrow> bool" where
  "exactNumber d = (isFinite d \<and> d \<noteq> negativeZero)"

subsection \<open>Documents (the two schemas)\<close>

text \<open>
  \<^verbatim>\<open>bcrypt.hash\<close> returns one string that holds the salt and the digest;
  \<^verbatim>\<open>bcrypt.compare\<close> reads the salt back from it. The two parts are kept apart here.
\<close>

datatype bhash = BHash (h_salt: string) (h_digest: string)

record user =
  u_id :: objectid
  u_username :: string
  u_password :: bhash
  u_createdAt :: nat

datatype brick = Brick (brick_x: number) (brick_y: number) (brick_z: number)
  (brick_width: number) (brick_depth: number) (brick_color: number) (brick_rotation: number)

record build =
  b_id :: objectid
  b_userId :: objectid
  b_name :: "string option"
  b_createdAt :: nat
  b_bricks :: "brick list"

text \<open>The two collections, each in insertion order.\<close>

record store =
  users :: "user list"
  builds :: "build list"

text \<open>
  The seven numbers of a brick, in the order of the schema; the brick as the body
  carried it; and the brick as \<^verbatim>\<open>res.json\<close> writes it. (The \<^verbatim>\<open>_id\<close> that mongoose gives
  every stored brick is left out.)
\<close>

definition brickNumbers :: "brick \<Rightarrow> number list" where
  "brickNumbers b = [brick_x b, brick_y b, brick_z b, brick_width b, brick_depth b,
                     brick_color b, brick_rotation b]"

definition parsedBrick :: "brick \<Rightarrow> json list" where
  "parsedBrick b = map JNum (brickNumbers b)"

definition stringifyBrick :: "brick \<Rightarrow> json list" where
  "stringifyBrick b = map stringifyNumber (brickNumbers b)"

definition exactBrick :: "brick \<Rightarrow> bool" where
  "exactBrick b = list_all exactNumber (brickNumbers b)"

subsection \<open>The environment of one request\<close>

datatype call = CUserFindOne | CBcryptHash | CBcryptCompare | CUserSave
  | CBuildSave | CBuildFind | CBuildFindById

definition isStoreCall :: "call \<Rightarrow> bool" where
  "isStoreCall c = (c \<noteq> CBcryptHash \<and> c \<noteq> CBcryptCompare)"

definition isMutation :: "call \<Rightarrow> bool" where
  "isMutation c = (c = CUserSave \<or> c = CBuildSave)"

text \<open>
  \<open>env_throws e c = Some m\<close>: the library call \<open>c\<close> rejects in this request with message
  \<open>m\<close> (the database is unreachable, say). \<open>env_castOther e v\<close>: what the cast of the
  schema type \<^verbatim>\<open>ObjectId\<close> makes of a JSON value \<open>v\<close> that is not a string.
\<close>

record env =
  env_now :: nat
  env_newId :: objectid
  env_salt :: string
  env_throws :: "call \<Rightarrow> string option"
  env_castOther :: "json \<Rightarrow> objectid option"

definition reliable :: "env \<Rightarrow> bool" where
  "reliable e = (env_throws e CUserFindOne = None \<and> env_throws e CBcryptHash = None
     \<and> env_throws e CBcryptCompare = None \<and> env_throws e CUserSave = None
     \<and> env_throws e CBuildSave = None \<and> env_throws e CBuildFind = None
     \<and> env_throws e CBuildFindById = None)"

text \<open>The key derivation of bcrypt: password and salt to digest.\<close>

type_synonym kdf = "string \<Rightarrow> string \<Rightarrow> string"

datatype exn = CastError string | ValidatorError string | DuplicateKey | LibraryError string

subsection \<open>Requests and responses\<close>

record credentials =
  username :: "string option"
  password :: "string option"

record saveBody =
  userId :: "json option"
  bricks :: "brick list option"

datatype body =
    Msg bool string
  | LoginOk objectid string string
  | SaveOk objectid
  | ErrorBody exn
  | BuildList "build list"
  | BuildDoc build

record response =
  status :: nat
  body :: body

record outcome =
  res :: response
  db :: store
  trace :: "call list"

definition reply :: "nat \<Rightarrow> body \<Rightarrow> store \<Rightarrow> call list \<Rightarrow> outcome" where
  "reply code b st cs = \<lparr>res = \<lparr>status = code, body = b\<rparr>, db = st, trace = cs\<rparr>"

subsection \<open>The library calls\<close>

definition User_findOne :: "env \<Rightarrow> store \<Rightarrow> string \<Rightarrow> exn + user option" where
  "User_findOne e st name =
     (case env_throws e CUserFindOne of
        Some m \<Rightarrow> Inl (LibraryError m)
      | None \<Rightarrow> Inr (find (\<lambda>u. u_username u = name) (users st)))"

definition bcrypt_hash :: "kdf \<Rightarrow> env \<Rightarrow> string \<Rightarrow> exn + bhash" where
  "bcrypt_hash K e pw =
     (case env_throws e CBcryptHash of
        Some m \<Rightarrow> Inl (LibraryError m)
      | None \<Rightarrow> Inr (BHash (env_salt e) (K pw (env_salt e))))"

definition bcrypt_compare :: "kdf \<Rightarrow> env \<Rightarrow> string \<Rightarrow> bhash \<Rightarrow> exn + bool" where
  "bcrypt_compare K e pw h =
     (case env_throws e CBcryptCompare of
        Some m \<Rightarrow> Inl (LibraryError m)
      | None \<Rightarrow> Inr (K pw (h_salt h) = h_digest h))"

definition new_User :: "env \<Rightarrow> string \<Rightarrow> bhash \<Rightarrow> user" where
  "new_User e name hashed =
     \<lparr>u_id = env_newId e, u_username = name, u_password = hashed, u_createdAt = env_now e\<rparr>"

text \<open>
  \<^verbatim>\<open>save\<close> inserts one document. The insert is rejected when the \<^verbatim>\<open>_id\<close> is taken, and
  for a user when the username is taken (\<^verbatim>\<open>unique: true\<close> in the schema).
\<close>

definition User_save :: "env \<Rightarrow> store \<Rightarrow> user \<Rightarrow> exn + store" where
  "User_save e st u =
     (case env_throws e CUserSave of
        Some m \<Rightarrow> Inl (LibraryError m)
      | None \<Rightarrow>
          if u_id u \<in> set (map u_id (users st))
             \<or> u_username u \<in> set (map u_username (users st))
          then Inl DuplicateKey
          else Inr (st\<lparr>users := users st @ [u]\<rparr>))"

text \<open>
  The cast of the schema type \<^verbatim>\<open>ObjectId\<close>: of a string as above, of any other value as
  the environment says.
\<close>

fun castValue :: "env \<Rightarrow> json \<Rightarrow> objectid option" where
  "castValue e (JStr s) = castObjectId s"
| "castValue e v = env_castOther e v"

text \<open>
  \<^verbatim>\<open>new Build({ userId, bricks })\<close>: the schema casts \<^verbatim>\<open>userId\<close> to an ObjectId; a failed
  cast is kept in the document and reported by the validation that \<^verbatim>\<open>save\<close> runs first,
  as is a \<^verbatim>\<open>userId\<close> that is undefined or null (\<^verbatim>\<open>required: true\<close>). An array path that is
  not given defaults to the empty array.
\<close>

fun new_Build :: "env \<Rightarrow> json option \<Rightarrow> brick list option \<Rightarrow> exn + build" where
  "new_Build e None bs = Inl (ValidatorError ''userId'')"
| "new_Build e (Some JNull) bs = Inl (ValidatorError ''userId'')"
| "new_Build e (Some v) bs =
     (case castValue e v of
        None \<Rightarrow> Inl (CastError ''userId'')
      | Some oid \<Rightarrow>
          Inr \<lparr>b_id = env_newId e, b_userId = oid, b_name = None, b_createdAt = env_now e,
               b_bricks = (case bs of None \<Rightarrow> [] | Some l \<Rightarrow> l)\<rparr>)"

definition Build_save :: "env \<Rightarrow> store \<Rightarrow> exn + build \<Rightarrow> exn + build \<times> store" where
  "Build_save e st doc =
     (case doc of
        Inl err \<Rightarrow> Inl err
      | Inr b \<Rightarrow>
          (case env_throws e CBuildSave of
             Some m \<Rightarrow> Inl (LibraryError m)
           | None \<Rightarrow>
               if b_id b \<in> set (map b_id (builds st)) then Inl DuplicateKey
               else Inr (b, st\<lparr>builds := builds st @ [b]\<rparr>)))"

text \<open>
  \<^verbatim>\<open>sort({ createdAt: -1 })\<close>: descending in \<^verbatim>\<open>createdAt\<close>. The database fixes no order
  among documents with equal keys; the model takes the later insertion first.
\<close>

definition sortDesc :: "('a \<Rightarrow> nat) \<Rightarrow> 'a list \<Rightarrow> 'a list" where
  "sortDesc f xs = rev (sort_key f xs)"

definition Build_find_sort_limit :: "env \<Rightarrow> store \<Rightarrow> string \<Rightarrow> exn + build list" where
  "Build_find_sort_limit e st uid =
     (case castObjectId uid of
        None \<Rightarrow> Inl (CastError ''userId'')
      | Some oid \<Rightarrow>
          (case env_throws e CBuildFind of
             Some m \<Rightarrow> Inl (LibraryError m)
           | None \<Rightarrow>
               Inr (take 10 (sortDesc b_createdAt (filter (\<lambda>b. b_userId b = oid) (builds st))))))"

definition Build_findById :: "env \<Rightarrow> store \<Rightarrow> string \<Rightarrow> exn + build option" where
  "Build_findById e st i =
     (case castObjectId i of
        None \<Rightarrow> Inl (CastError ''_id'')
      | Some oid \<Rightarrow>
          (case env_throws e CBuildFindById of
             Some m \<Rightarrow> Inl (LibraryError m)
           | None \<Rightarrow> Inr (find (\<lambda>b. b_id b = oid) (builds st))))"

subsection \<open>The route handlers\<close>

text \<open>
  \<^verbatim>\<open>!v\<close>: undefined, \<^verbatim>\<open>null\<close>, \<^verbatim>\<open>false\<close>, the zeros, \<^verbatim>\<open>NaN\<close> and the empty string are
  falsy; every other value, every array and every object is not.
\<close>

fun falsy :: "json option \<Rightarrow> bool" where
  "falsy None = True"
| "falsy (Some JNull) = True"
| "falsy (Some (JBool b)) = (\<not> b)"
| "falsy (Some (JNum d)) = (isZero d \<or> isNaN d)"
| "falsy (Some (JStr s)) = (s = [])"
| "falsy (Some (JArr xs)) = False"
| "falsy (Some (JObj kvs)) = False"

text \<open>A field that is absent or a string, as a JSON value; and its string.\<close>

definition field :: "string option \<Rightarrow> json option" where
  "field v = map_option JStr v"

definition str :: "string option \<Rightarrow> string" where
  "str v = (case v of None \<Rightarrow> [] | Some s \<Rightarrow> s)"

definition serverError :: body where
  "serverError = Msg False ''Server error''"

text \<open>\<^verbatim>\<open>POST /api/signup\<close>\<close>

definition signup :: "kdf \<Rightarrow> env \<Rightarrow> store \<Rightarrow> credentials \<Rightarrow> outcome" where
  "signup K e st req =
     (if falsy (field (username req)) \<or> falsy (field (password req)) then
        reply 400 (Msg False ''Username and password are required'') st []
      else if length (str (username req)) < 3 then
        reply 400 (Msg False ''Username must be at least 3 characters'') st []
      else if length (str (password req)) < 6 then
        reply 400 (Msg False ''Password must be at least 6 characters'') st []
      else
        (case User_findOne e st (str (username req)) of
           Inl err \<Rightarrow> reply 500 serverError st [CUserFindOne]
         | Inr (Some existingUser) \<Rightarrow>
             reply 400 (Msg False ''Username already exists'') st [CUserFindOne]
         | Inr None \<Rightarrow>
             (case bcrypt_hash K e (str (password req)) of
                Inl err \<Rightarrow> reply 500 serverError st [CUserFindOne, CBcryptHash]
              | Inr hashedPassword \<Rightarrow>
                  (case User_save e st (new_User e (str (username req)) hashedPassword) of
                     Inl err \<Rightarrow>
                       reply 500 serverError st [CUserFindOne, CBcryptHash, CUserSave]
                   | Inr st' \<Rightarrow>
                       reply 200 (Msg True ''Account created successfully'') st'
                         [CUserFindOne, CBcryptHash, CUserSave]))))"

text \<open>\<^verbatim>\<open>POST /api/login\<close>\<close>

definition login :: "kdf \<Rightarrow> env \<Rightarrow> store \<Rightarrow> credentials \<Rightarrow> outcome" where
  "login K e st req =
     (if falsy (field (username req)) \<or> falsy (field (password req)) then
        reply 400 (Msg False ''Username and password are required'') st []
      else
        (case User_findOne e st (str (username req)) of
           Inl err \<Rightarrow> reply 500 serverError st [CUserFindOne]
         | Inr None \<Rightarrow>
             reply 401 (Msg False ''Invalid username or password'') st [CUserFindOne]
         | Inr (Some u) \<Rightarrow>
             (case bcrypt_compare K e (str (password req)) (u_password u) of
                Inl err \<Rightarrow> reply 500 serverError st [CUserFindOne, CBcryptCompare]
              | Inr isPasswordValid \<Rightarrow>
                  if \<not> isPasswordValid then
                    reply 401 (Msg False ''Invalid username or password'') st
                      [CUserFindOne, CBcryptCompare]
                  else
                    reply 200 (LoginOk (u_id u) (u_username u) ''Login successful'') st
                      [CUserFindOne, CBcryptCompare])))"

text \<open>\<^verbatim>\<open>POST /api/save\<close>\<close>

definition saveBuild :: "env \<Rightarrow> store \<Rightarrow> saveBody \<Rightarrow> outcome" where
  "saveBuild e st req =
     (if falsy (userId req) then
        reply 401 (Msg False ''User not authenticated'') st []
      else
        (case Build_save e st (new_Build e (userId req) (bricks req)) of
           Inl err \<Rightarrow> reply 500 (ErrorBody err) st [CBuildSave]
         | Inr (saved, st') \<Rightarrow> reply 200 (SaveOk (b_id saved)) st' [CBuildSave]))"

text \<open>\<^verbatim>\<open>GET /api/history/:userId\<close>\<close>

definition getHistory :: "env \<Rightarrow> store \<Rightarrow> string \<Rightarrow> outcome" where
  "getHistory e st uid =
     (if falsy (Some (JStr uid)) then
        reply 401 (Msg False ''User not authenticated'') st []
      else
        (case Build_find_sort_limit e st uid of
           Inl err \<Rightarrow> reply 500 (ErrorBody err) st [CBuildFind]
         | Inr found \<Rightarrow> reply 200 (BuildList found) st [CBuildFind]))"

text \<open>\<^verbatim>\<open>GET /api/load/:id\<close>\<close>

definition loadBuild :: "env \<Rightarrow> store \<Rightarrow> string \<Rightarrow> outcome" where
  "loadBuild e st i =
     (case Build_findById e st i of
        Inl err \<Rightarrow> reply 500 (ErrorBody err) st [CBuildFindById]
      | Inr None \<Rightarrow> reply 404 (Msg False ''Build not found'') st [CBuildFindById]
      | Inr (Some b) \<Rightarrow> reply 200 (BuildDoc b) st [CBuildFindById])"

text \<open>The router: one request, one handler.\<close>

datatype request =
    Signup credentials
  | Login credentials
  | Save saveBody
  | History string
  | Load string

fun handle :: "kdf \<Rightarrow> env \<Rightarrow> store \<Rightarrow> request \<Rightarrow> outcome" where
  "handle K e st (Signup c) = signup K e st c"
| "handle K e st (Login c) = login K e st c"
| "handle K e st (Save b) = saveBuild e st b"
| "handle K e st (History uid) = getHistory e st uid"
| "handle K e st (Load i) = loadBuild e st i"

text \<open>
  The server handling a sequence of requests, each in its own environment: the contents
  of the database afterwards.
\<close>

fun run :: "kdf \<Rightarrow> (env \<times> request) list \<Rightarrow> store \<Rightarrow> store" where
  "run K [] st = st"
| "run K ((e, rq) # rest) st = run K rest (db (handle K e st rq))"

subsection \<open>Concrete values for the examples\<close>

definition demoKdf :: kdf where
  "demoKdf pw s = s @ pw"

definition env0 :: env where
  "env0 = \<lparr>env_now = 1000, env_newId = 1, env_salt = ''NaCl'', env_throws = (\<lambda>c. None),
            env_castOther = (\<lambda>v. None)\<rparr>"

definition env1 :: env where
  "env1 = \<lparr>env_now = 2000, env_newId = 2, env_salt = ''KCl'', env_throws = (\<lambda>c. None),
            env_castOther = (\<lambda>v. None)\<rparr>"

definition emptyStore :: store where
  "emptyStore = \<lparr>users = [], builds = []\<rparr>"

definition alice :: user where
  "alice = \<lparr>u_id = 1, u_username = ''alice'', u_password = BHash ''NaCl'' ''NaClsecret1'',
             u_createdAt = 1000\<rparr>"

definition aliceStore :: store where
  "aliceStore = \<lparr>users = [alice], builds = []\<rparr>"

definition aliceId :: string where
  "aliceId = ''000000000000000000000001''"

text \<open>
  The doubles 2 (\<open>0x4000000000000000\<close>), 4 (\<open>0x4010000000000000\<close>), 16711680, the colour
  \<^verbatim>\<open>0xFF0000\<close> (\<open>0x416FE00000000000\<close>), and \<^verbatim>\<open>Infinity\<close> (\<open>0x7FF0000000000000\<close>).
\<close>

definition redBrick :: brick where
  "redBrick = Brick 0 0 0 0x4000000000000000 0x4010000000000000 0x416FE00000000000 0"

definition hugeBrick :: brick where
  "hugeBrick =
     Brick 0x7FF0000000000000 0 0 0x4000000000000000 0x4010000000000000 0x416FE00000000000 0"

definition buildAt :: "nat \<Rightarrow> build" where
  "buildAt n = \<lparr>b_id = of_nat n, b_userId = 1, b_name = None, b_createdAt = n, b_bricks = []\<rparr>"

definition busyStore :: store where
  "busyStore =
     \<lparr>users = [alice],
      builds = map buildAt [1, 2, 3, 4, 5, 6, 7, 8, 9, 10, 11]
                 @ [\<lparr>b_id = 12, b_userId = 2, b_name = None, b_createdAt = 12, b_bricks = []\<rparr>]\<rparr>"

definition bobSignsUp :: "(env \<times> request) list" where
  "bobSignsUp = [(env1, Signup \<lparr>username = Some ''bob'', password = Some ''hunter22''\<rparr>)]"

definition aliceSavesAgain :: "(env \<times> request) list" where
  "aliceSavesAgain = [(env1, Save \<lparr>userId = Some (JStr aliceId), bricks = Some []\<rparr>)]"

section \<open>Properties\<close>

lemma reply_simps:
  "res (reply code b st cs) = \<lparr>status = code, body = b\<rparr>"
  "db (reply code b st cs) = st"
  "trace (reply code b st cs) = cs"
  by (simp_all add: reply_def)

subsection \<open>ObjectIds\<close>

lemma hexVal_hexChar: "d < 16 \<Longrightarrow> hexVal (hexChar d) = Some d"
proof -
  assume "d < 16"
  then have "d \<in> {0,1,2,3,4,5,6,7,8,9,10,11,12,13,14,15}" by auto arith
  then show ?thesis
    by (auto simp: hexVal_def hexChar_def)
qed

lemma fromHex_append:
  "fromHex acc (xs @ [c]) =
     (case fromHex acc xs of None \<Rightarrow> None
      | Some a \<Rightarrow> (case hexVal c of None \<Rightarrow> None | Some d \<Rightarrow> Some (16 * a + d)))"
  by (induction xs arbitrary: acc) (auto split: option.splits)

lemma fromHex_toHex: "fromHex acc (toHex k n) = Some (acc * 16 ^ k + n mod 16 ^ k)"
proof (induction k arbitrary: n)
  case 0
  then show ?case by simp
next
  case (Suc k)
  have "n mod 16 < 16" by simp
  then have h: "hexVal (hexChar (n mod 16)) = Some (n mod 16)" by (rule hexVal_hexChar)
  have "16 * (n div 16 mod 16 ^ k) + n mod 16 = n mod (16 * 16 ^ k)"
    by (simp add: mod_mult2_eq)
  then show ?case
    by (simp add: fromHex_append Suc.IH h algebra_simps)
qed

lemma length_toHex: "length (toHex k n) = k"
  by (induction k arbitrary: n) auto

text \<open>The text form of an ObjectId casts back to it.\<close>

lemma castObjectId_toHexString: "castObjectId (toHexString i) = Some i"
proof -
  have "unat i < 2 ^ 96" using unsigned_less [of i] by simp
  then have "unat i mod 16 ^ 24 = unat i" by simp
  then show ?thesis
    by (simp add: castObjectId_def toHexString_def length_toHex fromHex_toHex)
qed

lemma castObjectId_length: "castObjectId s = Some oid \<Longrightarrow> length s = 24"
  by (simp add: castObjectId_def split: if_splits)

subsection \<open>Lookups\<close>

lemma find_snoc:
  "find P (xs @ [y]) =
     (case find P xs of Some x \<Rightarrow> Some x | None \<Rightarrow> if P y then Some y else None)"
  by (induction xs) auto

lemma find_append_Some: "find P xs = Some x \<Longrightarrow> find P (xs @ ys) = Some x"
  by (induction xs) auto

lemma find_absent: "k \<notin> f ` set xs \<Longrightarrow> find (\<lambda>x. f x = k) xs = None"
  by (auto simp: find_None_iff)

lemma find_present:
  "k \<in> f ` set xs \<Longrightarrow> \<exists>x \<in> set xs. f x = k \<and> find (\<lambda>x. f x = k) xs = Some x"
  by (induction xs) auto

subsection \<open>Sorting\<close>

lemma sortDesc_sorted_wrt: "sorted_wrt (\<lambda>x y. f y \<le> f x) (sortDesc f xs)"
proof -
  have "sorted (map f (sort_key f xs))" by simp
  then have "sorted_wrt (\<lambda>x y. f x \<le> f y) (sort_key f xs)"
    by (simp add: sorted_wrt_map)
  then show ?thesis
    by (simp add: sortDesc_def sorted_wrt_rev)
qed

lemma sortDesc_sorted: "sorted_wrt (\<ge>) (map f (sortDesc f xs))"
  using sortDesc_sorted_wrt [of f xs] by (simp add: sorted_wrt_map)

lemma sorted_take_sortDesc: "sorted_wrt (\<ge>) (map f (take n (sortDesc f xs)))"
  unfolding take_map [symmetric] by (rule sorted_wrt_take) (rule sortDesc_sorted)

lemma set_sortDesc: "set (sortDesc f xs) = set xs"
  by (simp add: sortDesc_def)

lemma length_sortDesc: "length (sortDesc f xs) = length xs"
  by (simp add: sortDesc_def)

lemma mset_sortDesc: "mset (sortDesc f xs) = mset xs"
  by (simp add: sortDesc_def)

lemma mset_take_subset: "mset (take n ys) \<subseteq># mset ys"
  by (metis append_take_drop_id mset_append mset_subset_eq_add_left)

text \<open>What a sorted list leaves behind its first \<open>n\<close> elements is not above any of them.\<close>

lemma rest_below_take:
  fixes f :: "'a \<Rightarrow> nat"
  assumes "sorted_wrt (\<lambda>x y. f y \<le> f x) ys" and "mset ys = mset owned"
  shows "\<forall>b \<in># mset owned - mset (take n ys). \<forall>r \<in> set (take n ys). f b \<le> f r"
proof -
  have "mset (take n ys) + mset (drop n ys) = mset ys"
    by (metis append_take_drop_id mset_append)
  then have rest: "mset owned - mset (take n ys) = mset (drop n ys)"
    using assms(2) by (metis add_diff_cancel_left')
  have "\<forall>r \<in> set (take n ys). \<forall>b \<in> set (drop n ys). f b \<le> f r"
    using assms(1) sorted_wrt_append [of "\<lambda>x y. f y \<le> f x" "take n ys" "drop n ys"]
    by auto
  then show ?thesis unfolding rest by auto
qed

subsection \<open>Numbers\<close>

lemma falsy_field: "falsy (field v) = (v = None \<or> v = Some [])"
  by (cases v) (simp_all add: field_def)

lemma stringify_exact: "exactBrick b \<Longrightarrow> stringifyBrick b = parsedBrick b"
  by (simp add: exactBrick_def exactNumber_def stringifyBrick_def parsedBrick_def
      brickNumbers_def stringifyNumber_def)

lemma stringify_all_exact:
  "list_all exactBrick bs \<Longrightarrow> map stringifyBrick bs = map parsedBrick bs"
  by (induction bs) (simp_all add: stringify_exact)

subsection \<open>The example values\<close>

lemma castObjectId_aliceId: "castObjectId aliceId = Some 1"
  by (simp add: castObjectId_def aliceId_def hexVal_def)

lemma aliceId_nonempty: "aliceId \<noteq> []"
  by (simp add: aliceId_def)

lemma castObjectId_xyz: "castObjectId ''xyz'' = None"
  by (simp add: castObjectId_def)

lemma exact_redBrick: "exactBrick redBrick"
  by (simp add: exactBrick_def exactNumber_def brickNumbers_def redBrick_def isFinite_def
      negativeZero_def)

lemma save_alice:
  "saveBuild env0 emptyStore \<lparr>userId = Some (JStr aliceId), bricks = Some [redBrick]\<rparr>
     = reply 200 (SaveOk 1)
         \<lparr>users = [],
          builds = [\<lparr>b_id = 1, b_userId = 1, b_name = None, b_createdAt = 1000,
                     b_bricks = [redBrick]\<rparr>]\<rparr>
         [CBuildSave]"
  by (simp add: saveBuild_def aliceId_nonempty Build_save_def
      castObjectId_aliceId env0_def emptyStore_def)

text \<open>After alice, bob signs up: two users, alice no longer the last.\<close>

lemma bob_after_alice:
  "map u_username (users (run demoKdf bobSignsUp aliceStore)) = [''alice'', ''bob'']"
  by (simp add: bobSignsUp_def signup_def field_def str_def reply_def User_findOne_def
      bcrypt_hash_def User_save_def new_User_def env1_def aliceStore_def alice_def)

subsection \<open>What a request does to the database\<close>

lemma signup_trace:
  "(db (signup K e st c) = st
      \<and> trace (signup K e st c) \<in> {[], [CUserFindOne], [CUserFindOne, CBcryptHash],
           [CUserFindOne, CBcryptHash, CUserSave]}
      \<and> status (res (signup K e st c)) \<noteq> 200)
   \<or> (trace (signup K e st c) = [CUserFindOne, CBcryptHash, CUserSave]
      \<and> status (res (signup K e st c)) = 200)"
  by (auto simp: signup_def reply_def split: sum.splits option.splits)

lemma login_trace:
  "db (login K e st c) = st \<and> filter isMutation (trace (login K e st c)) = []"
  by (auto simp: login_def reply_def isMutation_def split: sum.splits option.splits)

lemma saveBuild_trace:
  "(db (saveBuild e st b) = st \<and> trace (saveBuild e st b) \<in> {[], [CBuildSave]}
      \<and> status (res (saveBuild e st b)) \<noteq> 200)
   \<or> (trace (saveBuild e st b) = [CBuildSave] \<and> status (res (saveBuild e st b)) = 200)"
  by (auto simp: saveBuild_def reply_def split: sum.splits option.splits)

lemma getHistory_trace:
  "db (getHistory e st uid) = st \<and> filter isMutation (trace (getHistory e st uid)) = []"
  by (auto simp: getHistory_def reply_def isMutation_def split: sum.splits option.splits)

lemma loadBuild_trace:
  "db (loadBuild e st i) = st \<and> filter isMutation (trace (loadBuild e st i)) = []"
  by (auto simp: loadBuild_def reply_def isMutation_def split: sum.splits option.splits)

text \<open>A request leaves the database as it is or appends one document.\<close>

lemma signup_db:
  "db (signup K e st c) = st \<or> (\<exists>u. db (signup K e st c) = st\<lparr>users := users st @ [u]\<rparr>)"
  by (auto simp: signup_def reply_def User_save_def
      split: sum.splits option.splits if_splits)

lemma saveBuild_db:
  "db (saveBuild e st b) = st
   \<or> (\<exists>d. db (saveBuild e st b) = st\<lparr>builds := builds st @ [d]\<rparr>)"
  by (auto simp: saveBuild_def reply_def Build_save_def
      split: sum.splits option.splits if_splits)

lemma handle_keeps_user:
  assumes "find P (users st) = Some u"
  shows "find P (users (db (handle K e st rq))) = Some u"
proof (cases rq)
  case (Signup c)
  then show ?thesis using signup_db [of K e st c] assms by (auto simp: find_append_Some)
next
  case (Login c)
  then show ?thesis using login_trace [of K e st c] assms by simp
next
  case (Save b)
  then show ?thesis using saveBuild_db [of e st b] assms by auto
next
  case (History uid)
  then show ?thesis using getHistory_trace [of e st uid] assms by simp
next
  case (Load i)
  then show ?thesis using loadBuild_trace [of e st i] assms by simp
qed

lemma handle_keeps_build:
  assumes "find P (builds st) = Some d"
  shows "find P (builds (db (handle K e st rq))) = Some d"
proof (cases rq)
  case (Signup c)
  then show ?thesis using signup_db [of K e st c] assms by auto
next
  case (Login c)
  then show ?thesis using login_trace [of K e st c] assms by simp
next
  case (Save b)
  then show ?thesis using saveBuild_db [of e st b] assms by (auto simp: find_append_Some)
next
  case (History uid)
  then show ?thesis using getHistory_trace [of e st uid] assms by simp
next
  case (Load i)
  then show ?thesis using loadBuild_trace [of e st i] assms by simp
qed

lemma run_keeps_user:
  "find P (users st) = Some u \<Longrightarrow> find P (users (run K steps st)) = Some u"
  by (induction K steps st rule: run.induct) (simp_all add: handle_keeps_user)

lemma run_keeps_build:
  "find P (builds st) = Some d \<Longrightarrow> find P (builds (run K steps st)) = Some d"
  by (induction K steps st rule: run.induct) (simp_all add: handle_keeps_build)

section \<open>Signup and login\<close>

text \<open>
  C1. A signup with a username of at least 3 characters that no user has yet and a
  password of at least 6 characters succeeds and appends one user record. After any
  further requests to the server, a login with the same username and password succeeds
  and returns the \<^verbatim>\<open>_id\<close> of that record, while a login with that username and a
  password whose digest under the stored salt is another is answered with 401. The
  library calls of the signup and of the login are taken to succeed, and the ObjectId the
  driver generates to be unused.
\<close>

theorem signup_then_login:
  assumes "3 \<le> length name" and "6 \<le> length pw"
    and "name \<notin> u_username ` set (users st)"
    and "env_newId e \<notin> u_id ` set (users st)"
    and "reliable e" and "reliable e'"
  shows "\<exists>u. signup K e st \<lparr>username = Some name, password = Some pw\<rparr>
               = reply 200 (Msg True ''Account created successfully'')
                   (st\<lparr>users := users st @ [u]\<rparr>) [CUserFindOne, CBcryptHash, CUserSave]
             \<and> u_username u = name \<and> u_id u = env_newId e
             \<and> res (login K e' (run K steps (st\<lparr>users := users st @ [u]\<rparr>))
                     \<lparr>username = Some name, password = Some pw\<rparr>)
               = \<lparr>status = 200, body = LoginOk (u_id u) name ''Login successful''\<rparr>
             \<and> (other \<noteq> [] \<longrightarrow> K other (env_salt e) \<noteq> K pw (env_salt e) \<longrightarrow>
                  res (login K e' (run K steps (st\<lparr>users := users st @ [u]\<rparr>))
                         \<lparr>username = Some name, password = Some other\<rparr>)
                    = \<lparr>status = 401, body = Msg False ''Invalid username or password''\<rparr>)"
proof -
  let ?u = "new_User e name (BHash (env_salt e) (K pw (env_salt e)))"
  let ?st = "st\<lparr>users := users st @ [?u]\<rparr>"
  have nonempty: "name \<noteq> []" "pw \<noteq> []" using assms(1,2) by auto
  have absent: "find (\<lambda>u. u_username u = name) (users st) = None"
    using assms(3) by (rule find_absent)
  have s: "signup K e st \<lparr>username = Some name, password = Some pw\<rparr>
        = reply 200 (Msg True ''Account created successfully'') ?st
            [CUserFindOne, CBcryptHash, CUserSave]"
    using assms nonempty absent
    by (simp add: signup_def field_def str_def User_findOne_def bcrypt_hash_def User_save_def
        new_User_def reliable_def)
  have "find (\<lambda>u. u_username u = name) (users ?st) = Some ?u"
    using absent by (simp add: find_snoc new_User_def)
  then have later: "find (\<lambda>u. u_username u = name) (users (run K steps ?st)) = Some ?u"
    by (rule run_keeps_user)
  have l: "res (login K e' (run K steps ?st) \<lparr>username = Some name, password = Some pw\<rparr>)
               = \<lparr>status = 200, body = LoginOk (u_id ?u) name ''Login successful''\<rparr>"
    using assms(6) nonempty later
    by (simp add: login_def field_def str_def User_findOne_def bcrypt_compare_def
        new_User_def reliable_def reply_def)
  have w: "other \<noteq> [] \<longrightarrow> K other (env_salt e) \<noteq> K pw (env_salt e) \<longrightarrow>
             res (login K e' (run K steps ?st) \<lparr>username = Some name, password = Some other\<rparr>)
               = \<lparr>status = 401, body = Msg False ''Invalid username or password''\<rparr>"
    using assms(6) nonempty later
    by (simp add: login_def field_def str_def User_findOne_def bcrypt_compare_def
        new_User_def reliable_def reply_def)
  have "u_username ?u = name" "u_id ?u = env_newId e" by (simp_all add: new_User_def)
  with s l w show ?thesis by blast
qed

theorem signup_then_login_witness:
  "\<exists>u. signup demoKdf env0 emptyStore \<lparr>username = Some ''alice'', password = Some ''secret1''\<rparr>
         = reply 200 (Msg True ''Account created successfully'')
             (emptyStore\<lparr>users := users emptyStore @ [u]\<rparr>) [CUserFindOne, CBcryptHash, CUserSave]
       \<and> u_username u = ''alice'' \<and> u_id u = env_newId env0
       \<and> res (login demoKdf env1
               (run demoKdf bobSignsUp (emptyStore\<lparr>users := users emptyStore @ [u]\<rparr>))
               \<lparr>username = Some ''alice'', password = Some ''secret1''\<rparr>)
         = \<lparr>status = 200, body = LoginOk (u_id u) ''alice'' ''Login successful''\<rparr>
       \<and> res (login demoKdf env1
               (run demoKdf bobSignsUp (emptyStore\<lparr>users := users emptyStore @ [u]\<rparr>))
               \<lparr>username = Some ''alice'', password = Some ''guess''\<rparr>)
         = \<lparr>status = 401, body = Msg False ''Invalid username or password''\<rparr>"
  using signup_then_login [where name = "''alice''" and pw = "''secret1''" and st = emptyStore
      and e = env0 and e' = env1 and K = demoKdf and steps = bobSignsUp
      and other = "''guess''"]
  by (simp add: emptyStore_def env0_def env1_def reliable_def demoKdf_def)

text \<open>
  C3, as stated, fails for a field that is present and empty: the handler answers 400 to
  a login whose username is the empty string, for which no user exists, and 401 to a
  login with an existing username and a wrong password.
\<close>

theorem login_empty_username_counterexample:
  "res (login demoKdf env0 aliceStore \<lparr>username = Some [], password = Some ''secret1''\<rparr>)
     = \<lparr>status = 400, body = Msg False ''Username and password are required''\<rparr>
   \<and> find (\<lambda>u. u_username u = []) (users aliceStore) = None
   \<and> res (login demoKdf env0 aliceStore \<lparr>username = Some ''alice'', password = Some ''guess''\<rparr>)
     = \<lparr>status = 401, body = Msg False ''Invalid username or password''\<rparr>"
  by (simp add: login_def field_def str_def reply_def User_findOne_def bcrypt_compare_def
      aliceStore_def alice_def env0_def demoKdf_def)

text \<open>
  C3, amended. For two logins whose username and password are both present and not
  empty, one naming a username that no user has, the other naming the username of a user
  whose stored hash the password does not match, the two responses are equal: status 401
  and the message \<^verbatim>\<open>Invalid username or password\<close>. The lookups and the comparison are
  taken to succeed.
\<close>

theorem login_failures_identical:
  assumes "n1 \<noteq> []" and "p1 \<noteq> []" and "n2 \<noteq> []" and "p2 \<noteq> []"
    and "n1 \<notin> u_username ` set (users st)"
    and "find (\<lambda>u. u_username u = n2) (users st) = Some u"
    and "K p2 (h_salt (u_password u)) \<noteq> h_digest (u_password u)"
    and "env_throws e1 CUserFindOne = None"
    and "env_throws e2 CUserFindOne = None" and "env_throws e2 CBcryptCompare = None"
  shows "res (login K e1 st \<lparr>username = Some n1, password = Some p1\<rparr>)
           = \<lparr>status = 401, body = Msg False ''Invalid username or password''\<rparr>
       \<and> res (login K e2 st \<lparr>username = Some n2, password = Some p2\<rparr>)
           = res (login K e1 st \<lparr>username = Some n1, password = Some p1\<rparr>)"
proof -
  have "find (\<lambda>u. u_username u = n1) (users st) = None"
    using assms(5) by (rule find_absent)
  then have a: "res (login K e1 st \<lparr>username = Some n1, password = Some p1\<rparr>)
           = \<lparr>status = 401, body = Msg False ''Invalid username or password''\<rparr>"
    using assms(1,2,8) by (simp add: login_def field_def str_def User_findOne_def reply_def)
  have b: "res (login K e2 st \<lparr>username = Some n2, password = Some p2\<rparr>)
           = \<lparr>status = 401, body = Msg False ''Invalid username or password''\<rparr>"
    using assms(3,4,6,7,9,10)
    by (simp add: login_def field_def str_def User_findOne_def bcrypt_compare_def reply_def)
  from a b show ?thesis by simp
qed

theorem login_failures_identical_witness:
  "res (login demoKdf env0 aliceStore \<lparr>username = Some ''bob'', password = Some ''secret1''\<rparr>)
           = \<lparr>status = 401, body = Msg False ''Invalid username or password''\<rparr>
       \<and> res (login demoKdf env0 aliceStore \<lparr>username = Some ''alice'', password = Some ''guess''\<rparr>)
           = res (login demoKdf env0 aliceStore \<lparr>username = Some ''bob'', password = Some ''secret1''\<rparr>)"
  using login_failures_identical [where ?n1.0 = "''bob''" and ?p1.0 = "''secret1''"
      and ?n2.0 = "''alice''" and ?p2.0 = "''guess''" and st = aliceStore and u = alice
      and K = demoKdf and ?e1.0 = env0 and ?e2.0 = env0]
  by (simp add: aliceStore_def alice_def env0_def demoKdf_def)

text \<open>
  C6, as stated, fails for a password that does not pass validation: the length check
  on the password comes before the lookup, so a signup with an existing username and a
  password of three characters is answered with the password-length message.
\<close>

theorem signup_duplicate_short_password_counterexample:
  "res (signup demoKdf env0 aliceStore \<lparr>username = Some ''alice'', password = Some ''abc''\<rparr>)
     = \<lparr>status = 400, body = Msg False ''Password must be at least 6 characters''\<rparr>
   \<and> ''alice'' \<in> set (map u_username (users aliceStore))"
  by (simp add: signup_def field_def str_def reply_def aliceStore_def alice_def)

text \<open>
  C6, amended. A signup whose username is the username of an existing user, with a
  username of at least 3 and a password of at least 6 characters, is answered with status
  400 and the message \<^verbatim>\<open>Username already exists\<close>, whichever such password is supplied;
  the database is unchanged. The lookup is taken to succeed.
\<close>

theorem signup_duplicate:
  assumes "name \<in> u_username ` set (users st)"
    and "3 \<le> length name" and "6 \<le> length pw"
    and "env_throws e CUserFindOne = None"
  shows "signup K e st \<lparr>username = Some name, password = Some pw\<rparr>
           = reply 400 (Msg False ''Username already exists'') st [CUserFindOne]"
proof -
  have nonempty: "name \<noteq> []" "pw \<noteq> []" using assms(2,3) by auto
  obtain u where "find (\<lambda>u. u_username u = name) (users st) = Some u"
    using find_present [OF assms(1)] by blast
  then show ?thesis
    using assms(2,3,4) nonempty
    by (simp add: signup_def field_def str_def User_findOne_def)
qed

theorem signup_duplicate_witness:
  "signup demoKdf env0 aliceStore \<lparr>username = Some ''alice'', password = Some ''another-password''\<rparr>
     = reply 400 (Msg False ''Username already exists'') aliceStore [CUserFindOne]"
  using signup_duplicate [where name = "''alice''" and pw = "''another-password''"
      and st = aliceStore and e = env0 and K = demoKdf]
  by (simp add: aliceStore_def alice_def env0_def)



section \<open>Save, then load\<close>

lemma new_Build_Inr:
  "new_Build e v bs = Inr d \<Longrightarrow>
     b_id d = env_newId e \<and> b_createdAt d = env_now e
     \<and> b_bricks d = (case bs of None \<Rightarrow> [] | Some l \<Rightarrow> l)"
  by (induction e v bs rule: new_Build.induct) (auto split: option.splits)

lemma saveBuild_ok:
  assumes "res (saveBuild e st req) = \<lparr>status = 200, body = SaveOk i\<rparr>"
  shows "\<exists>d. db (saveBuild e st req) = st\<lparr>builds := builds st @ [d]\<rparr>
             \<and> b_id d = i \<and> b_bricks d = (case bricks req of None \<Rightarrow> [] | Some l \<Rightarrow> l)
             \<and> i \<notin> b_id ` set (builds st)"
proof -
  from assms obtain d st' where
    saved: "Build_save e st (new_Build e (userId req) (bricks req)) = Inr (d, st')"
    and i: "b_id d = i" and st': "db (saveBuild e st req) = st'"
    by (auto simp: saveBuild_def reply_def split: if_splits sum.splits)
  from saved have doc: "new_Build e (userId req) (bricks req) = Inr d"
    and app: "st' = st\<lparr>builds := builds st @ [d]\<rparr>"
    and fresh: "b_id d \<notin> b_id ` set (builds st)"
    by (auto simp: Build_save_def split: sum.splits option.splits if_splits)
  from new_Build_Inr [OF doc]
  have "b_bricks d = (case bricks req of None \<Rightarrow> [] | Some l \<Rightarrow> l)" by simp
  with i st' app fresh show ?thesis by blast
qed

text \<open>
  C2, as stated, fails for a brick with a number that is not finite. \<^verbatim>\<open>1e400\<close> in the
  body reaches the handler as \<^verbatim>\<open>Infinity\<close> and is stored; the load answers 200, and
  \<^verbatim>\<open>res.json\<close> writes that field as \<^verbatim>\<open>null\<close>, which is not the number that was submitted.
\<close>

theorem save_then_load_infinity_counterexample:
  "res (loadBuild env0
          (db (saveBuild env0 emptyStore
                 \<lparr>userId = Some (JStr aliceId), bricks = Some [hugeBrick]\<rparr>))
          aliceId)
     = \<lparr>status = 200,
        body = BuildDoc \<lparr>b_id = 1, b_userId = 1, b_name = None, b_createdAt = 1000,
                          b_bricks = [hugeBrick]\<rparr>\<rparr>
   \<and> parsedBrick hugeBrick
       = [JNum 0x7FF0000000000000, JNum 0, JNum 0, JNum 0x4000000000000000,
          JNum 0x4010000000000000, JNum 0x416FE00000000000, JNum 0]
   \<and> stringifyBrick hugeBrick
       = [JNull, JNum 0, JNum 0, JNum 0x4000000000000000,
          JNum 0x4010000000000000, JNum 0x416FE00000000000, JNum 0]"
  by (simp add: saveBuild_def aliceId_nonempty Build_save_def castObjectId_aliceId
      loadBuild_def Build_findById_def reply_def env0_def emptyStore_def
      parsedBrick_def stringifyBrick_def brickNumbers_def hugeBrick_def
      stringifyNumber_def isFinite_def negativeZero_def)

text \<open>
  C2, amended. When \<^verbatim>\<open>POST /api/save\<close> with a bricks array answers with an id, then after
  any further requests to the server, loading the text form of that id answers 200 with
  the stored build of that \<^verbatim>\<open>_id\<close>, whose bricks are the submitted list, in the same
  order. When all seven numbers of every submitted brick are finite and none is the
  negative zero, the bricks in the response are identical to the submitted ones, field for
  field; a number that is not finite comes back as \<^verbatim>\<open>null\<close> and the negative zero as
  \<^verbatim>\<open>0\<close>. The bricks are taken as the body parser delivers them, each number a double.
  The lookup of the load is taken to succeed.
\<close>

theorem save_then_load:
  assumes "res (saveBuild e st \<lparr>userId = uid, bricks = Some bs\<rparr>)
             = \<lparr>status = 200, body = SaveOk i\<rparr>"
    and "env_throws e' CBuildFindById = None"
  shows "\<exists>d. res (loadBuild e'
                     (run K steps (db (saveBuild e st \<lparr>userId = uid, bricks = Some bs\<rparr>)))
                     (toHexString i))
               = \<lparr>status = 200, body = BuildDoc d\<rparr>
             \<and> b_id d = i \<and> b_bricks d = bs
             \<and> map stringifyBrick (b_bricks d) = map (map stringifyNumber \<circ> brickNumbers) bs
             \<and> (list_all exactBrick bs \<longrightarrow>
                  map stringifyBrick (b_bricks d) = map parsedBrick bs)"
proof -
  let ?st = "db (saveBuild e st \<lparr>userId = uid, bricks = Some bs\<rparr>)"
  obtain d where d: "?st = st\<lparr>builds := builds st @ [d]\<rparr>" "b_id d = i" "b_bricks d = bs"
    "i \<notin> b_id ` set (builds st)"
    using saveBuild_ok [OF assms(1)] by auto
  have "find (\<lambda>b. b_id b = i) (builds st) = None"
    using d(4) by (rule find_absent)
  then have "find (\<lambda>b. b_id b = i) (builds ?st) = Some d"
    using d(1,2) by (simp add: find_snoc)
  then have "find (\<lambda>b. b_id b = i) (builds (run K steps ?st)) = Some d"
    by (rule run_keeps_build)
  then have "res (loadBuild e' (run K steps ?st) (toHexString i))
               = \<lparr>status = 200, body = BuildDoc d\<rparr>"
    using assms(2)
    by (simp add: loadBuild_def Build_findById_def castObjectId_toHexString reply_def)
  moreover have "map stringifyBrick bs = map (map stringifyNumber \<circ> brickNumbers) bs"
    by (simp add: stringifyBrick_def)
  ultimately show ?thesis
    using d(2,3) stringify_all_exact [of bs] by auto
qed

theorem save_then_load_witness:
  "\<exists>d. res (loadBuild env0
              (run demoKdf aliceSavesAgain
                 (db (saveBuild env0 emptyStore
                        \<lparr>userId = Some (JStr aliceId), bricks = Some [redBrick]\<rparr>)))
              (toHexString 1))
         = \<lparr>status = 200, body = BuildDoc d\<rparr>
       \<and> b_id d = 1 \<and> b_bricks d = [redBrick]
       \<and> map stringifyBrick (b_bricks d) = map parsedBrick [redBrick]"
  using save_then_load [where e = env0 and st = emptyStore and uid = "Some (JStr aliceId)"
      and bs = "[redBrick]" and i = 1 and e' = env0 and K = demoKdf
      and steps = aliceSavesAgain]
  by (simp add: save_alice reply_simps exact_redBrick) (auto simp: env0_def)

section \<open>History\<close>

lemma getHistory_cast:
  assumes "castObjectId uid = Some oid" and "env_throws e CBuildFind = None"
  shows "getHistory e st uid
           = reply 200
               (BuildList (take 10 (sortDesc b_createdAt
                  (filter (\<lambda>b. b_userId b = oid) (builds st)))))
               st [CBuildFind]"
proof -
  have "uid \<noteq> []" using castObjectId_length [OF assms(1)] by auto
  then show ?thesis
    using assms by (simp add: getHistory_def Build_find_sort_limit_def)
qed

text \<open>
  C4, as stated, fails for a \<^verbatim>\<open>userId\<close> in the path that is not the text of an ObjectId:
  the query rejects the cast and the response is an error, status 500, not a sequence of
  builds.
\<close>

theorem getHistory_malformed_userId_counterexample:
  "getHistory env0 busyStore ''xyz''
     = reply 500 (ErrorBody (CastError ''userId'')) busyStore [CBuildFind]"
  by (simp add: getHistory_def Build_find_sort_limit_def castObjectId_xyz)

text \<open>
  C4, amended. For every \<^verbatim>\<open>userId\<close> in the path that is the text of an ObjectId,
  \<^verbatim>\<open>GET /api/history/:userId\<close> answers 200 with a list of builds such that: it has 10
  builds, or all of that owner when there are fewer; each is a stored build of that owner
  and none is returned more often than it is stored; the list is in descending order of
  \<^verbatim>\<open>createdAt\<close>; and no build of that owner that is left out is newer than one that is
  returned. So with more than 10 builds of that owner it returns exactly 10, the newest,
  and for an owner without builds the empty list, not an error. The query is taken to
  succeed. A \<^verbatim>\<open>userId\<close> that is not the text of an ObjectId is answered with 500.
\<close>

theorem history_newest_ten:
  "(castObjectId uid = Some oid \<longrightarrow> env_throws e CBuildFind = None \<longrightarrow>
      (\<exists>bs. getHistory e st uid = reply 200 (BuildList bs) st [CBuildFind]
         \<and> length bs = min 10 (length (filter (\<lambda>b. b_userId b = oid) (builds st)))
         \<and> mset bs \<subseteq># mset (filter (\<lambda>b. b_userId b = oid) (builds st))
         \<and> (\<forall>b \<in> set bs. b \<in> set (builds st) \<and> b_userId b = oid)
         \<and> sorted_wrt (\<ge>) (map b_createdAt bs)
         \<and> (\<forall>b \<in># mset (filter (\<lambda>b. b_userId b = oid) (builds st)) - mset bs.
               \<forall>r \<in> set bs. b_createdAt b \<le> b_createdAt r)
         \<and> (10 < length (filter (\<lambda>b. b_userId b = oid) (builds st)) \<longrightarrow> length bs = 10)
         \<and> (filter (\<lambda>b. b_userId b = oid) (builds st) = [] \<longrightarrow> bs = [])))
   \<and> (uid \<noteq> [] \<longrightarrow> castObjectId uid = None \<longrightarrow>
        getHistory e st uid = reply 500 (ErrorBody (CastError ''userId'')) st [CBuildFind])"
proof -
  let ?owned = "filter (\<lambda>b. b_userId b = oid) (builds st)"
  let ?ys = "sortDesc b_createdAt ?owned"
  let ?bs = "take 10 ?ys"
  have len: "length ?bs = min 10 (length ?owned)"
    by (simp add: length_sortDesc)
  have sub: "mset ?bs \<subseteq># mset ?owned"
    using mset_take_subset [of 10 ?ys] by (simp add: mset_sortDesc)
  have own: "\<forall>b \<in> set ?bs. b \<in> set (builds st) \<and> b_userId b = oid"
    by (auto dest!: in_set_takeD simp: set_sortDesc)
  have srt: "sorted_wrt (\<ge>) (map b_createdAt ?bs)"
    by (rule sorted_take_sortDesc)
  have new: "\<forall>b \<in># mset ?owned - mset ?bs. \<forall>r \<in> set ?bs. b_createdAt b \<le> b_createdAt r"
    by (rule rest_below_take) (simp_all add: sortDesc_sorted_wrt mset_sortDesc)
  have ten: "10 < length ?owned \<longrightarrow> length ?bs = 10"
    using len by simp
  have none: "?owned = [] \<longrightarrow> ?bs = []"
    by (simp add: sortDesc_def)
  have wellformed: "castObjectId uid = Some oid \<longrightarrow> env_throws e CBuildFind = None \<longrightarrow>
      (\<exists>bs. getHistory e st uid = reply 200 (BuildList bs) st [CBuildFind]
         \<and> length bs = min 10 (length ?owned)
         \<and> mset bs \<subseteq># mset ?owned
         \<and> (\<forall>b \<in> set bs. b \<in> set (builds st) \<and> b_userId b = oid)
         \<and> sorted_wrt (\<ge>) (map b_createdAt bs)
         \<and> (\<forall>b \<in># mset ?owned - mset bs. \<forall>r \<in> set bs. b_createdAt b \<le> b_createdAt r)
         \<and> (10 < length ?owned \<longrightarrow> length bs = 10)
         \<and> (?owned = [] \<longrightarrow> bs = []))"
  proof (intro impI)
    assume "castObjectId uid = Some oid" and "env_throws e CBuildFind = None"
    then have "getHistory e st uid = reply 200 (BuildList ?bs) st [CBuildFind]"
      by (rule getHistory_cast)
    with len sub own srt new ten none show "\<exists>bs. getHistory e st uid
         = reply 200 (BuildList bs) st [CBuildFind]
         \<and> length bs = min 10 (length ?owned)
         \<and> mset bs \<subseteq># mset ?owned
         \<and> (\<forall>b \<in> set bs. b \<in> set (builds st) \<and> b_userId b = oid)
         \<and> sorted_wrt (\<ge>) (map b_createdAt bs)
         \<and> (\<forall>b \<in># mset ?owned - mset bs. \<forall>r \<in> set bs. b_createdAt b \<le> b_createdAt r)
         \<and> (10 < length ?owned \<longrightarrow> length bs = 10)
         \<and> (?owned = [] \<longrightarrow> bs = [])"
      by blast
  qed
  have malformed: "uid \<noteq> [] \<longrightarrow> castObjectId uid = None \<longrightarrow>
        getHistory e st uid = reply 500 (ErrorBody (CastError ''userId'')) st [CBuildFind]"
    by (simp add: getHistory_def Build_find_sort_limit_def)
  from wellformed malformed show ?thesis by blast
qed

lemma busy_owned_1:
  "filter (\<lambda>b. b_userId b = 1) (builds busyStore)
     = map buildAt [1, 2, 3, 4, 5, 6, 7, 8, 9, 10, 11]"
  by (simp add: busyStore_def buildAt_def)

text \<open>On the example store: the ten newest of the eleven builds of the owner, newest first.\<close>

lemma history_busy:
  "getHistory env0 busyStore aliceId
     = reply 200 (BuildList (map buildAt [11, 10, 9, 8, 7, 6, 5, 4, 3, 2])) busyStore [CBuildFind]"
  by (simp add: getHistory_def aliceId_nonempty Build_find_sort_limit_def
      castObjectId_aliceId env0_def busyStore_def buildAt_def sortDesc_def)

theorem history_newest_ten_witness:
  "\<exists>bs. getHistory env0 busyStore aliceId = reply 200 (BuildList bs) busyStore [CBuildFind]
      \<and> length bs = 10
      \<and> mset bs \<subseteq># mset (map buildAt [1, 2, 3, 4, 5, 6, 7, 8, 9, 10, 11])
      \<and> sorted_wrt (\<ge>) (map b_createdAt bs)"
proof -
  have t: "env_throws env0 CBuildFind = None" by (simp add: env0_def)
  show ?thesis
    using history_newest_ten [where st = busyStore and uid = aliceId and oid = 1
        and e = env0] t
    by (auto simp: busy_owned_1 castObjectId_aliceId)
qed

section \<open>Saving a build\<close>

text \<open>
  C5, as stated, fails in both directions. A \<^verbatim>\<open>userId\<close> that is present but is not the
  text of an ObjectId is not stored: the schema type of \<^verbatim>\<open>userId\<close> rejects it when the
  document is saved, the response is 500 and no build is created. And a \<^verbatim>\<open>userId\<close> that
  is present but is the empty string or \<^verbatim>\<open>null\<close> is answered with 401.
\<close>

theorem saveBuild_bad_userId_counterexample:
  "saveBuild env0 emptyStore \<lparr>userId = Some (JStr ''xyz''), bricks = Some [redBrick]\<rparr>
     = reply 500 (ErrorBody (CastError ''userId'')) emptyStore [CBuildSave]
   \<and> saveBuild env0 emptyStore \<lparr>userId = Some (JStr []), bricks = Some [redBrick]\<rparr>
     = reply 401 (Msg False ''User not authenticated'') emptyStore []
   \<and> saveBuild env0 emptyStore \<lparr>userId = Some JNull, bricks = Some [redBrick]\<rparr>
     = reply 401 (Msg False ''User not authenticated'') emptyStore []"
  by (simp add: saveBuild_def Build_save_def castObjectId_xyz)

text \<open>
  C5, amended. \<^verbatim>\<open>POST /api/save\<close> answers 401 exactly when \<^verbatim>\<open>userId\<close> is falsy: absent
  from the body, \<^verbatim>\<open>null\<close>, \<^verbatim>\<open>false\<close>, a zero or the empty string. For a \<^verbatim>\<open>userId\<close> that is
  the text of an ObjectId it appends one build with that owner, the given bricks,
  \<^verbatim>\<open>createdAt\<close> the current time and the newly generated \<^verbatim>\<open>_id\<close>, and returns that
  \<^verbatim>\<open>_id\<close>; whether a user with that ObjectId exists is not checked. The insert is taken
  to succeed and the generated ObjectId to be unused. A non-empty string that is not the
  text of an ObjectId is answered with 500 and nothing is stored.
\<close>

theorem saveBuild_creates:
  "(status (res (saveBuild e st req)) = 401) = falsy (userId req)
   \<and> (falsy (userId req) =
        (userId req = None \<or> userId req = Some JNull \<or> userId req = Some (JBool False)
         \<or> userId req = Some (JStr [])
         \<or> (\<exists>d. userId req = Some (JNum d) \<and> (isZero d \<or> isNaN d))))
   \<and> (castObjectId uid = Some oid \<longrightarrow> env_throws e CBuildSave = None \<longrightarrow>
        env_newId e \<notin> b_id ` set (builds st) \<longrightarrow>
        saveBuild e st \<lparr>userId = Some (JStr uid), bricks = Some bs\<rparr>
          = reply 200 (SaveOk (env_newId e))
              (st\<lparr>builds := builds st @
                   [\<lparr>b_id = env_newId e, b_userId = oid, b_name = None,
                     b_createdAt = env_now e, b_bricks = bs\<rparr>]\<rparr>)
              [CBuildSave])
   \<and> (uid \<noteq> [] \<longrightarrow> castObjectId uid = None \<longrightarrow>
        saveBuild e st \<lparr>userId = Some (JStr uid), bricks = Some bs\<rparr>
          = reply 500 (ErrorBody (CastError ''userId'')) st [CBuildSave])"
proof -
  have a: "(status (res (saveBuild e st req)) = 401) = falsy (userId req)"
    by (auto simp: saveBuild_def reply_def split: sum.splits)
  have f: "falsy (userId req) =
        (userId req = None \<or> userId req = Some JNull \<or> userId req = Some (JBool False)
         \<or> userId req = Some (JStr [])
         \<or> (\<exists>d. userId req = Some (JNum d) \<and> (isZero d \<or> isNaN d)))"
    by (cases "userId req" rule: falsy.cases) auto
  have b: "castObjectId uid = Some oid \<longrightarrow> env_throws e CBuildSave = None \<longrightarrow>
        env_newId e \<notin> b_id ` set (builds st) \<longrightarrow>
        saveBuild e st \<lparr>userId = Some (JStr uid), bricks = Some bs\<rparr>
          = reply 200 (SaveOk (env_newId e))
              (st\<lparr>builds := builds st @
                   [\<lparr>b_id = env_newId e, b_userId = oid, b_name = None,
                     b_createdAt = env_now e, b_bricks = bs\<rparr>]\<rparr>)
              [CBuildSave]"
    by (auto simp: saveBuild_def Build_save_def dest: castObjectId_length)
  have c: "uid \<noteq> [] \<longrightarrow> castObjectId uid = None \<longrightarrow>
        saveBuild e st \<lparr>userId = Some (JStr uid), bricks = Some bs\<rparr>
          = reply 500 (ErrorBody (CastError ''userId'')) st [CBuildSave]"
    by (simp add: saveBuild_def Build_save_def)
  from a f b c show ?thesis by blast
qed

theorem saveBuild_creates_witness:
  "saveBuild env0 emptyStore \<lparr>userId = Some (JStr aliceId), bricks = Some [redBrick]\<rparr>
     = reply 200 (SaveOk 1)
         (emptyStore\<lparr>builds := builds emptyStore @
            [\<lparr>b_id = 1, b_userId = 1, b_name = None, b_createdAt = 1000,
              b_bricks = [redBrick]\<rparr>]\<rparr>)
         [CBuildSave]
   \<and> status (res (saveBuild env0 emptyStore \<lparr>userId = Some (JBool False),
                                              bricks = Some [redBrick]\<rparr>)) = 401"
  using saveBuild_creates [where e = env0 and st = emptyStore and uid = aliceId and oid = 1
      and bs = "[redBrick]" and req = "\<lparr>userId = Some (JBool False), bricks = Some [redBrick]\<rparr>"]
  by (simp add: castObjectId_aliceId env0_def emptyStore_def)

text \<open>
  C10, as stated, fails for a \<^verbatim>\<open>userId\<close> that is present but is not the text of an
  ObjectId: without \<^verbatim>\<open>bricks\<close> too the request is answered with 500 and no build is
  created.
\<close>

theorem saveBuild_no_bricks_bad_userId_counterexample:
  "saveBuild env0 emptyStore \<lparr>userId = Some (JStr ''xyz''), bricks = None\<rparr>
     = reply 500 (ErrorBody (CastError ''userId'')) emptyStore [CBuildSave]"
  by (simp add: saveBuild_def Build_save_def castObjectId_xyz)

text \<open>
  C10, amended. A save request whose \<^verbatim>\<open>userId\<close> is the text of an ObjectId and whose
  body has no \<^verbatim>\<open>bricks\<close> field succeeds: one build with that owner and an empty bricks
  array is appended and its newly generated \<^verbatim>\<open>_id\<close> is returned. The insert is taken to
  succeed and the generated ObjectId to be unused.
\<close>

theorem saveBuild_no_bricks:
  assumes "castObjectId uid = Some oid" and "env_throws e CBuildSave = None"
    and "env_newId e \<notin> b_id ` set (builds st)"
  shows "saveBuild e st \<lparr>userId = Some (JStr uid), bricks = None\<rparr>
          = reply 200 (SaveOk (env_newId e))
              (st\<lparr>builds := builds st @
                   [\<lparr>b_id = env_newId e, b_userId = oid, b_name = None,
                     b_createdAt = env_now e, b_bricks = []\<rparr>]\<rparr>)
              [CBuildSave]"
  using assms
  by (auto simp: saveBuild_def Build_save_def dest: castObjectId_length)

theorem saveBuild_no_bricks_witness:
  "saveBuild env0 emptyStore \<lparr>userId = Some (JStr aliceId), bricks = None\<rparr>
     = reply 200 (SaveOk 1)
         (emptyStore\<lparr>builds := builds emptyStore @
            [\<lparr>b_id = 1, b_userId = 1, b_name = None, b_createdAt = 1000, b_bricks = []\<rparr>]\<rparr>)
         [CBuildSave]"
  using saveBuild_no_bricks [where e = env0 and st = emptyStore and uid = aliceId and oid = 1]
  by (simp add: castObjectId_aliceId env0_def emptyStore_def)

section \<open>Loading a build\<close>

lemma loadBuild_cast:
  assumes "castObjectId i = Some oid" and "env_throws e CBuildFindById = None"
  shows "(status (res (loadBuild e st i)) = 404) = (oid \<notin> b_id ` set (builds st))
       \<and> (oid \<notin> b_id ` set (builds st) \<longrightarrow>
             res (loadBuild e st i) = \<lparr>status = 404, body = Msg False ''Build not found''\<rparr>)
       \<and> (oid \<in> b_id ` set (builds st) \<longrightarrow>
             (\<exists>b \<in> set (builds st). b_id b = oid
                \<and> res (loadBuild e st i) = \<lparr>status = 200, body = BuildDoc b\<rparr>))"
proof (cases "oid \<in> b_id ` set (builds st)")
  case True
  then obtain b where "b \<in> set (builds st)" "b_id b = oid"
    "find (\<lambda>b. b_id b = oid) (builds st) = Some b"
    using find_present [of oid b_id "builds st"] by blast
  then show ?thesis
    using assms True
    by (auto simp: loadBuild_def Build_findById_def reply_def)
next
  case False
  then have "find (\<lambda>b. b_id b = oid) (builds st) = None" by (rule find_absent)
  then show ?thesis
    using assms False
    by (simp add: loadBuild_def Build_findById_def reply_def)
qed

text \<open>
  C9, as stated, fails for an id that is not the text of an ObjectId: no build with that
  identifier exists, and the response is 500 with the cast error, not 404.
\<close>

theorem loadBuild_malformed_id_counterexample:
  "loadBuild env0 emptyStore ''xyz''
     = reply 500 (ErrorBody (CastError ''_id'')) emptyStore [CBuildFindById]
   \<and> builds emptyStore = []"
  by (simp add: loadBuild_def Build_findById_def castObjectId_xyz emptyStore_def)

text \<open>
  C9, amended. For an id that is the text of an ObjectId, \<^verbatim>\<open>GET /api/load/:id\<close> answers
  404 if and only if no stored build has that \<^verbatim>\<open>_id\<close>; otherwise it answers 200 with a
  stored build of that \<^verbatim>\<open>_id\<close>, bricks included. The handler takes no identity of the
  caller, so there is no ownership check. The lookup is taken to succeed. An id that is
  not the text of an ObjectId is answered with 500.
\<close>

theorem loadBuild_found_or_404:
  "(castObjectId i = Some oid \<longrightarrow> env_throws e CBuildFindById = None \<longrightarrow>
      (status (res (loadBuild e st i)) = 404) = (oid \<notin> b_id ` set (builds st))
      \<and> (oid \<notin> b_id ` set (builds st) \<longrightarrow>
            res (loadBuild e st i) = \<lparr>status = 404, body = Msg False ''Build not found''\<rparr>)
      \<and> (oid \<in> b_id ` set (builds st) \<longrightarrow>
            (\<exists>b \<in> set (builds st). b_id b = oid
               \<and> res (loadBuild e st i) = \<lparr>status = 200, body = BuildDoc b\<rparr>)))
   \<and> (castObjectId i = None \<longrightarrow>
        loadBuild e st i = reply 500 (ErrorBody (CastError ''_id'')) st [CBuildFindById])"
proof -
  have malformed: "castObjectId i = None \<longrightarrow>
        loadBuild e st i = reply 500 (ErrorBody (CastError ''_id'')) st [CBuildFindById]"
    by (simp add: loadBuild_def Build_findById_def)
  from loadBuild_cast [of i oid e st] malformed show ?thesis by blast
qed

theorem loadBuild_found_or_404_witness:
  "status (res (loadBuild env0 busyStore aliceId)) \<noteq> 404
   \<and> (\<exists>b \<in> set (builds busyStore). b_id b = 1
         \<and> res (loadBuild env0 busyStore aliceId) = \<lparr>status = 200, body = BuildDoc b\<rparr>)
   \<and> res (loadBuild env0 emptyStore aliceId)
       = \<lparr>status = 404, body = Msg False ''Build not found''\<rparr>"
proof -
  have t: "env_throws env0 CBuildFindById = None" by (simp add: env0_def)
  have here: "(1 :: objectid) \<in> b_id ` set (builds busyStore)"
    by (simp add: busyStore_def buildAt_def)
  have nothere: "(1 :: objectid) \<notin> b_id ` set (builds emptyStore)"
    by (simp add: emptyStore_def)
  show ?thesis
    using loadBuild_found_or_404 [where i = aliceId and oid = 1 and e = env0
        and st = busyStore]
      loadBuild_found_or_404 [where i = aliceId and oid = 1 and e = env0 and st = emptyStore]
      here nothere t
    by (simp add: castObjectId_aliceId)
qed

section \<open>Store calls and failure\<close>

text \<open>
  C7, as stated, fails in its last part: a successful signup makes two store calls, the
  lookup of the username and the insert of the new user.
\<close>

theorem signup_two_store_calls_counterexample:
  "filter isStoreCall
     (trace (signup demoKdf env0 emptyStore \<lparr>username = Some ''alice'', password = Some ''secret1''\<rparr>))
     = [CUserFindOne, CUserSave]"
  by (simp add: signup_def field_def str_def reply_def User_findOne_def bcrypt_hash_def
      User_save_def new_User_def env0_def emptyStore_def isStoreCall_def)

text \<open>
  C7, amended. Every request makes at most one mutating store call, and the database
  changes only in a request that makes one; whenever the response is an error (a status
  other than 200) the database is unchanged. A signup makes at most two store calls: the
  read-only lookup of the username and then at most one insert. That a rejected insert
  stores nothing is what the model takes from the database.
\<close>

theorem single_mutation:
  "(status (res (handle K e st rq)) \<noteq> 200 \<longrightarrow> db (handle K e st rq) = st)
   \<and> length (filter isMutation (trace (handle K e st rq))) \<le> 1
   \<and> (filter isMutation (trace (handle K e st rq)) = [] \<longrightarrow> db (handle K e st rq) = st)
   \<and> filter isStoreCall (trace (signup K e st c))
        \<in> {[], [CUserFindOne], [CUserFindOne, CUserSave]}"
proof -
  have s: "filter isStoreCall (trace (signup K e st c))
        \<in> {[], [CUserFindOne], [CUserFindOne, CUserSave]}"
    using signup_trace [of K e st c] by (auto simp: isStoreCall_def)
  have h: "(status (res (handle K e st rq)) \<noteq> 200 \<longrightarrow> db (handle K e st rq) = st)
   \<and> length (filter isMutation (trace (handle K e st rq))) \<le> 1
   \<and> (filter isMutation (trace (handle K e st rq)) = [] \<longrightarrow> db (handle K e st rq) = st)"
  proof (cases rq)
    case (Signup c')
    then show ?thesis using signup_trace [of K e st c'] by (auto simp: isMutation_def)
  next
    case (Login c')
    then show ?thesis using login_trace [of K e st c'] by auto
  next
    case (Save b)
    then show ?thesis using saveBuild_trace [of e st b] by (auto simp: isMutation_def)
  next
    case (History uid)
    then show ?thesis using getHistory_trace [of e st uid] by auto
  next
    case (Load i)
    then show ?thesis using loadBuild_trace [of e st i] by auto
  qed
  from s h show ?thesis by blast
qed

theorem single_mutation_witness:
  "status (res (handle demoKdf env0 aliceStore
       (Signup \<lparr>username = Some ''alice'', password = Some ''secret1''\<rparr>))) \<noteq> 200
   \<and> db (handle demoKdf env0 aliceStore
       (Signup \<lparr>username = Some ''alice'', password = Some ''secret1''\<rparr>)) = aliceStore"
proof -
  have "status (res (handle demoKdf env0 aliceStore
       (Signup \<lparr>username = Some ''alice'', password = Some ''secret1''\<rparr>))) = 400"
    by (simp add: signup_def field_def str_def reply_def User_findOne_def aliceStore_def
        alice_def env0_def)
  then show ?thesis
    using single_mutation [where K = demoKdf and e = env0 and st = aliceStore
        and rq = "Signup \<lparr>username = Some ''alice'', password = Some ''secret1''\<rparr>"]
    by simp
qed

end
